theory Spec2Isabelle
  imports Main "HOL-Library.Sublist"
begin

section \<open>Strings and numbers of the JavaScript source\<close>

text \<open>
  Strings are byte lists in UTF-8. The source only concatenates strings, so the choice of
  encoding does not matter for anything stated below. The characters of the source that
  are not ASCII are named here by their UTF-8 bytes.
\<close>

definition robot_face :: string where
  "robot_face = [CHR 0xF0, CHR 0x9F, CHR 0xA4, CHR 0x96]"

definition red_circle :: string where
  "red_circle = [CHR 0xF0, CHR 0x9F, CHR 0x94, CHR 0xB4]"

definition yellow_circle :: string where
  "yellow_circle = [CHR 0xF0, CHR 0x9F, CHR 0x9F, CHR 0xA1]"

definition info_sign :: string where
  "info_sign = [CHR 0xE2, CHR 0x84, CHR 0xB9, CHR 0xEF, CHR 0xB8, CHR 0x8F]"

definition check_mark :: string where
  "check_mark = [CHR 0xE2, CHR 0x9C, CHR 0x85]"

definition bullet :: string where
  "bullet = [CHR 0xE2, CHR 0x80, CHR 0xA2]"

text \<open>
  A template literal renders a number in decimal. Array lengths and line numbers are
  natural numbers here; the rendering agrees with JavaScript below \<open>10^21\<close>.
\<close>

definition digitChar :: "nat \<Rightarrow> char" where
  "digitChar d =
     (if d = 0 then CHR ''0'' else if d = 1 then CHR ''1'' else if d = 2 then CHR ''2''
      else if d = 3 then CHR ''3'' else if d = 4 then CHR ''4'' else if d = 5 then CHR ''5''
      else if d = 6 then CHR ''6'' else if d = 7 then CHR ''7'' else if d = 8 then CHR ''8''
      else CHR ''9'')"

fun showNat :: "nat \<Rightarrow> string" where
  "showNat n = (if n < 10 then [digitChar n] else showNat (n div 10) @ [digitChar (n mod 10)])"

declare showNat.simps [simp del]

text \<open>
  An optional field is \<open>None\<close> when the property is absent (\<open>undefined\<close>). A template
  literal renders an absent value as the text \<open>undefined\<close>.
\<close>

definition template :: "string option \<Rightarrow> string" where
  "template v = (case v of None \<Rightarrow> ''undefined'' | Some s \<Rightarrow> s)"

text \<open>
  \<open>v || d\<close> yields \<open>d\<close> when \<open>v\<close> is falsy: absent, the empty string, or the number zero.
\<close>

definition stringOr :: "string option \<Rightarrow> string \<Rightarrow> string" where
  "stringOr v d = (case v of None \<Rightarrow> d | Some s \<Rightarrow> if s = [] then d else s)"

definition numberOr :: "nat option \<Rightarrow> nat \<Rightarrow> nat" where
  "numberOr v d = (case v of None \<Rightarrow> d | Some n \<Rightarrow> if n = 0 then d else n)"

section \<open>Data model\<close>

text \<open>
  The objects that the source reads, with the properties it reads. A property that may
  be missing is an option, \<open>None\<close> when it is absent. Present values are typed as the
  data model of the specification has them: strings, and a natural number for the line.
\<close>

record issue =
  severity :: "string option"
  "file" :: "string option"
  line :: "nat option"
  message :: "string option"
  title :: "string option"

text \<open>The value of \<open>task.result\<close>, with its optional properties \<open>summary\<close> and \<open>issues\<close>.\<close>

record taskResult =
  result_summary :: "string option"
  result_issues :: "issue list option"

text \<open>An entry of \<open>result.results\<close>. Its \<open>result\<close> property may be absent.\<close>

record task =
  agentId :: string
  result :: "taskResult option"

text \<open>The value returned by \<open>orchestrator.executeWorkflow\<close>.\<close>

record workflowResult =
  results :: "task list option"

text \<open>Reading a property of \<open>undefined\<close> throws a \<open>TypeError\<close>.\<close>

datatype error = TypeError

section \<open>generateSummary and extractIssues\<close>

text \<open>The body of \<open>tasks.forEach\<close> in \<open>generateSummary\<close>, threaded through the running text.\<close>

fun generateSummary_forEach :: "task list \<Rightarrow> string \<Rightarrow> error + string" where
  "generateSummary_forEach [] summary = Inr summary"
| "generateSummary_forEach (task # rest) summary =
     (case result task of
        None \<Rightarrow> Inl TypeError
      | Some r \<Rightarrow>
          (case result_summary r of
             None \<Rightarrow> generateSummary_forEach rest summary
           | Some s \<Rightarrow>
               if s \<noteq> [] then
                 generateSummary_forEach rest
                   (summary @ ''\<newline>'' @ agentId task @ '': '' @ s)
               else generateSummary_forEach rest summary))"

definition generateSummary :: "workflowResult \<Rightarrow> error + string" where
  "generateSummary res =
     (let tasks = (case results res of None \<Rightarrow> [] | Some ts \<Rightarrow> ts);
          summary = ''Analyzed '' @ showNat (length tasks) @ '' workflow tasks\<newline>''
      in generateSummary_forEach tasks summary)"

text \<open>
  The body of \<open>tasks.forEach\<close> in \<open>extractIssues\<close>. An array is truthy even when it is
  empty, so the test \<open>task.result.issues\<close> only asks whether the property is there.
\<close>

fun extractIssues_forEach :: "task list \<Rightarrow> issue list \<Rightarrow> error + issue list" where
  "extractIssues_forEach [] issues = Inr issues"
| "extractIssues_forEach (task # rest) issues =
     (case result task of
        None \<Rightarrow> Inl TypeError
      | Some r \<Rightarrow>
          (case result_issues r of
             None \<Rightarrow> extractIssues_forEach rest issues
           | Some new \<Rightarrow> extractIssues_forEach rest (issues @ new)))"

definition extractIssues :: "workflowResult \<Rightarrow> error + issue list" where
  "extractIssues res =
     (let issues = [];
          tasks = (case results res of None \<Rightarrow> [] | Some ts \<Rightarrow> ts)
      in extractIssues_forEach tasks issues)"

section \<open>Annotations\<close>

record annotation =
  path :: string
  start_line :: nat
  end_line :: nat
  annotation_level :: string
  annotation_message :: "string option"
  annotation_title :: string

text \<open>The call made for one issue: \<open>core.error\<close> or \<open>core.warning\<close>, with its arguments.\<close>

datatype command =
  Error "string option" annotation
| Warning "string option" annotation

definition annotationOf :: "issue \<Rightarrow> annotation" where
  "annotationOf issue =
     (let level = (if severity issue = Some ''critical'' then ''error'' else ''warning'')
      in \<lparr>path = stringOr (file issue) ''unknown'',
          start_line = numberOr (line issue) 1,
          end_line = numberOr (line issue) 1,
          annotation_level = (if level = ''error'' then ''failure'' else ''warning''),
          annotation_message = message issue,
          annotation_title = stringOr (title issue) ''Issue found''\<rparr>)"

definition annotate :: "issue \<Rightarrow> command" where
  "annotate issue =
     (let level = (if severity issue = Some ''critical'' then ''error'' else ''warning'');
          annotation = annotationOf issue
      in if level = ''error'' then Error (message issue) annotation
         else Warning (message issue) annotation)"

definition annotations :: "issue list \<Rightarrow> command list" where
  "annotations issues = map annotate issues"

section \<open>The pull-request comment\<close>

definition lineOrQuestion :: "nat option \<Rightarrow> string" where
  "lineOrQuestion v = (case v of None \<Rightarrow> ''?'' | Some n \<Rightarrow> if n = 0 then ''?'' else showNat n)"

definition issueLine :: "issue \<Rightarrow> string" where
  "issueLine issue =
     ''- **'' @ template (file issue) @ '':'' @ lineOrQuestion (line issue) @ ''** - ''
       @ template (message issue) @ ''\<newline>''"

definition createPullRequestComment_body :: "string \<Rightarrow> issue list \<Rightarrow> bool \<Rightarrow> string" where
  "createPullRequestComment_body summary issues aiEnabled =
     (let body = ''## '' @ robot_face @ '' EquilateralAgents Analysis\<newline>\<newline>'';
          body = body @ ''### Summary\<newline>'' @ summary @ ''\<newline>'';
          body =
            (if length issues > 0 then
               (let body = body @ ''\<newline>### Issues Found ('' @ showNat (length issues)
                             @ '')\<newline>\<newline>'';
                    critical = filter (\<lambda>i. severity i = Some ''critical'') issues;
                    warnings = filter (\<lambda>i. severity i = Some ''warning'') issues;
                    info = filter (\<lambda>i. severity i = Some ''info'') issues;
                    body =
                      (if length critical > 0 then
                         foldl (\<lambda>body issue. body @ issueLine issue)
                           (body @ ''#### '' @ red_circle @ '' Critical (''
                              @ showNat (length critical) @ '')\<newline>'')
                           critical @ ''\<newline>''
                       else body);
                    body =
                      (if length warnings > 0 then
                         foldl (\<lambda>body issue. body @ issueLine issue)
                           (body @ ''#### '' @ yellow_circle @ '' Warnings (''
                              @ showNat (length warnings) @ '')\<newline>'')
                           warnings @ ''\<newline>''
                       else body);
                    body =
                      (if length info > 0 then
                         foldl (\<lambda>body issue. body @ issueLine issue)
                           (body @ ''#### '' @ info_sign @ '' Info (''
                              @ showNat (length info) @ '')\<newline>'')
                           info @ ''\<newline>''
                       else body)
                in body)
             else body @ ''\<newline>'' @ check_mark @ '' No issues found!\<newline>'');
          body = body @ ''\<newline>---\<newline>'';
          body = body
            @ ''*Powered by [EquilateralAgents](https://github.com/marketplace/equilateral-agents)'';
          body = (if aiEnabled then body @ '' '' @ bullet @ '' AI-Enhanced Analysis Enabled''
                  else body);
          body = body @ ''*''
      in body)"

section \<open>The check run\<close>

record checkRun =
  name :: string
  status :: string
  conclusion :: string
  output_title :: string
  output_summary :: string
  output_text :: string

text \<open>
  The request passed to \<open>checks.create\<close>. The last argument is the text that
  \<open>JSON.stringify\<close> returns for the workflow result.
\<close>

definition createCheckRunReport :: "string \<Rightarrow> issue list \<Rightarrow> string \<Rightarrow> checkRun" where
  "createCheckRunReport summary issues text =
     (let criticalCount = length (filter (\<lambda>i. severity i = Some ''critical'') issues);
          conclusion = (if criticalCount > 0 then ''failure'' else ''success'');
          title = (if criticalCount > 0
                   then ''Found '' @ showNat criticalCount @ '' critical issues''
                   else ''All checks passed'')
      in \<lparr>name = ''EquilateralAgents'', status = ''completed'', conclusion = conclusion,
          output_title = title, output_summary = summary, output_text = text\<rparr>)"

section \<open>The workflow registry\<close>

record taskDescriptor =
  descriptor_agentId :: string
  taskType :: string

record workflowDefinition =
  tasks :: "taskDescriptor list"

text \<open>The own properties of the object literal \<open>workflows\<close>, in source order.\<close>

definition workflows :: "(string \<times> workflowDefinition) list" where
  "workflows =
     [(''code-review'',
        \<lparr>tasks =
          [\<lparr>descriptor_agentId = ''github-code-analyzer'', taskType = ''analyze''\<rparr>,
           \<lparr>descriptor_agentId = ''github-security-scanner'', taskType = ''scan''\<rparr>]\<rparr>),
      (''full-analysis'',
        \<lparr>tasks =
          [\<lparr>descriptor_agentId = ''github-code-analyzer'', taskType = ''analyze''\<rparr>,
           \<lparr>descriptor_agentId = ''github-security-scanner'', taskType = ''scan''\<rparr>,
           \<lparr>descriptor_agentId = ''github-test-runner'', taskType = ''test''\<rparr>]\<rparr>),
      (''pre-deploy'',
        \<lparr>tasks =
          [\<lparr>descriptor_agentId = ''github-test-runner'', taskType = ''test''\<rparr>,
           \<lparr>descriptor_agentId = ''github-security-scanner'', taskType = ''scan''\<rparr>,
           \<lparr>descriptor_agentId = ''github-deployment-validator'', taskType = ''validate''\<rparr>]\<rparr>),
      (''security-scan'',
        \<lparr>tasks =
          [\<lparr>descriptor_agentId = ''github-security-scanner'',
            taskType = ''security_scan''\<rparr>]\<rparr>)]"

text \<open>
  \<open>workflows\<close> is an object literal, so \<open>workflows[workflowType]\<close> also finds the
  properties that every object inherits from \<open>Object.prototype\<close>. These are their
  names in Node.js. Each of them is a function or an object, hence truthy, and none of
  them has a property \<open>tasks\<close>.
\<close>

definition objectPrototypeNames :: "string list" where
  "objectPrototypeNames =
     [''constructor'', ''__defineGetter__'', ''__defineSetter__'', ''hasOwnProperty'',
      ''__lookupGetter__'', ''__lookupSetter__'', ''isPrototypeOf'',
      ''propertyIsEnumerable'', ''toString'', ''valueOf'', ''__proto__'',
      ''toLocaleString'']"

datatype lookup =
  Definition workflowDefinition
| PrototypeMember string

text \<open>
  \<open>workflows[workflowType] || { tasks: [] }\<close>: an own property first, then an inherited
  one, and the empty definition only when the lookup yields \<open>undefined\<close>.
\<close>

definition getWorkflowDefinition :: "string \<Rightarrow> lookup" where
  "getWorkflowDefinition workflowType =
     (case map_of workflows workflowType of
        Some d \<Rightarrow> Definition d
      | None \<Rightarrow>
          if workflowType \<in> set objectPrototypeNames then PrototypeMember workflowType
          else Definition \<lparr>tasks = []\<rparr>)"

section \<open>The run, after the workflow has been executed\<close>

record inputs =
  aiEnabled :: bool
  createPRComment :: bool
  createCheckRun :: bool
  failOnErrors :: bool
  pull_request :: bool

record report =
  summary_output :: string
  issues_found :: nat
  critical_issues :: nat
  commands :: "command list"
  pr_comment :: "string option"
  check_run :: "checkRun option"
  failed :: "string option"

text \<open>
  What \<open>run\<close> does with the workflow result, from its comment \<open>Process results\<close>
  on: the outputs it sets, the annotation calls, the comment and the check run it hands
  to the publisher, and the failure it signals. \<open>Inl\<close> is the \<open>catch\<close> block: the
  action is set to failed with the error's message, and no output, annotation, comment
  or check run has been produced. The last argument is the text of \<open>JSON.stringify\<close>
  for the workflow result; the output \<open>results\<close>, which only repeats it, is left out.
\<close>

definition run :: "inputs \<Rightarrow> workflowResult \<Rightarrow> string \<Rightarrow> error + report" where
  "run inp res text =
     (case generateSummary res of
        Inl e \<Rightarrow> Inl e
      | Inr summary \<Rightarrow>
          (case extractIssues res of
             Inl e \<Rightarrow> Inl e
           | Inr issues \<Rightarrow>
               (let criticalIssues = filter (\<lambda>i. severity i = Some ''critical'') issues
                in Inr
                  \<lparr>summary_output = summary,
                   issues_found = length issues,
                   critical_issues = length criticalIssues,
                   commands = annotations issues,
                   pr_comment =
                     (if createPRComment inp \<and> pull_request inp
                      then Some (createPullRequestComment_body summary issues (aiEnabled inp))
                      else None),
                   check_run =
                     (if createCheckRun inp
                      then Some (createCheckRunReport summary issues text)
                      else None),
                   failed =
                     (if failOnErrors inp \<and> length criticalIssues > 0
                      then Some (''Found '' @ showNat (length criticalIssues)
                                   @ '' critical issues'')
                      else None)\<rparr>)))"

section \<open>Notions used in the statements\<close>

text \<open>The task list that both functions walk: \<open>result.results || []\<close>.\<close>

definition tasksOf :: "workflowResult \<Rightarrow> task list" where
  "tasksOf res = (case results res of None \<Rightarrow> [] | Some ts \<Rightarrow> ts)"

text \<open>What one task adds to the summary: nothing, or a line break and its line.\<close>

definition summaryLine :: "task \<Rightarrow> string" where
  "summaryLine t =
     (case result t of
        None \<Rightarrow> []
      | Some r \<Rightarrow>
          (case result_summary r of
             None \<Rightarrow> []
           | Some s \<Rightarrow> if s = [] then [] else ''\<newline>'' @ agentId t @ '': '' @ s))"

text \<open>
  The same, read off the specification: every outcome that carries a summary gets its
  line, whatever the summary is.
\<close>

definition claimedSummaryLine :: "task \<Rightarrow> string" where
  "claimedSummaryLine t =
     (case result t of
        None \<Rightarrow> []
      | Some r \<Rightarrow>
          (case result_summary r of
             None \<Rightarrow> []
           | Some s \<Rightarrow> ''\<newline>'' @ agentId t @ '': '' @ s))"

text \<open>The issue list of one task; empty when the task reports none.\<close>

definition contributed :: "task \<Rightarrow> issue list" where
  "contributed t =
     (case result t of
        None \<Rightarrow> []
      | Some r \<Rightarrow> (case result_issues r of None \<Rightarrow> [] | Some new \<Rightarrow> new))"

text \<open>Sample issues for the concrete instances.\<close>

definition issue1 :: issue where
  "issue1 = \<lparr>severity = Some ''critical'', file = Some ''a.js'', line = Some 10,
     message = Some ''SQL injection'', title = None\<rparr>"

definition issue2 :: issue where
  "issue2 = \<lparr>severity = Some ''warning'', file = Some ''b.js'', line = Some 5,
     message = Some ''unused var'', title = None\<rparr>"

definition issue3 :: issue where
  "issue3 = \<lparr>severity = Some ''info'', file = Some ''c.js'', line = None,
     message = Some ''note'', title = Some ''Style''\<rparr>"

text \<open>Sample tasks and inputs for the concrete instances.\<close>

definition taskA :: task where
  "taskA = \<lparr>agentId = ''A'', result = Some \<lparr>result_summary = Some ''2 findings'',
     result_issues = Some [issue1, issue2]\<rparr>\<rparr>"

definition taskB :: task where
  "taskB = \<lparr>agentId = ''B'', result = Some \<lparr>result_summary = Some ''ok'',
     result_issues = Some [issue3]\<rparr>\<rparr>"

definition taskSilent :: task where
  "taskSilent = \<lparr>agentId = ''F'',
     result = Some \<lparr>result_summary = None, result_issues = None\<rparr>\<rparr>"

definition taskNoResult :: task where
  "taskNoResult = \<lparr>agentId = ''F'', result = None\<rparr>"

definition sampleInputs :: inputs where
  "sampleInputs = \<lparr>aiEnabled = False, createPRComment = True, createCheckRun = True,
     failOnErrors = False, pull_request = True\<rparr>"

text \<open>An issue whose file and title are empty strings, and one with an unknown severity.\<close>

definition issueBlank :: issue where
  "issueBlank = \<lparr>severity = Some ''warning'', file = Some '''', line = Some 3,
     message = Some ''unused var'', title = Some ''''\<rparr>"

definition issueOdd :: issue where
  "issueOdd = \<lparr>severity = Some ''error'', file = Some ''a.js'', line = Some 10,
     message = Some ''SQL injection'', title = None\<rparr>"

text \<open>The issues of one severity, in the order of the list.\<close>

definition withSeverity :: "string \<Rightarrow> issue list \<Rightarrow> issue list" where
  "withSeverity s issues = filter (\<lambda>i. severity i = Some s) issues"

definition criticalCount :: "issue list \<Rightarrow> nat" where
  "criticalCount issues = length (withSeverity ''critical'' issues)"

text \<open>
  A critical issue without a line number, and a warning without a file and a line.
\<close>

definition issue4 :: issue where
  "issue4 = \<lparr>severity = Some ''critical'', file = Some ''d.js'', line = None,
     message = Some ''leak'', title = None\<rparr>"

definition issueNoPath :: issue where
  "issueNoPath = \<lparr>severity = Some ''warning'', file = None, line = None,
     message = Some ''unused var'', title = None\<rparr>"

text \<open>
  The line of one issue in the comment, spelled out: a dash, then in bold the file, a
  colon and the line number, then a dash and the message. A missing or zero line number
  shows as \<open>?\<close>; a missing file or message shows as the text \<open>undefined\<close>.
\<close>

definition listedLine :: "issue \<Rightarrow> string" where
  "listedLine i =
     ''- **'' @ (case file i of None \<Rightarrow> ''undefined'' | Some f \<Rightarrow> f) @ '':''
       @ (case line i of None \<Rightarrow> ''?'' | Some n \<Rightarrow> if n = 0 then ''?'' else showNat n)
       @ ''** - '' @ (case message i of None \<Rightarrow> ''undefined'' | Some m \<Rightarrow> m)
       @ ''\<newline>''"

text \<open>
  A subsection of the comment: nothing for an empty group, otherwise a heading with the
  size of the group, one line per issue, and an empty line.
\<close>

definition severitySection :: "string \<Rightarrow> issue list \<Rightarrow> string" where
  "severitySection label items =
     (if items = [] then []
      else ''#### '' @ label @ '' ('' @ showNat (length items) @ '')\<newline>''
             @ concat (map listedLine items) @ ''\<newline>'')"

text \<open>The attribution that closes the comment, and the note on AI inside it.\<close>

definition aiNote :: string where
  "aiNote = '' '' @ bullet @ '' AI-Enhanced Analysis Enabled''"

definition footer :: "bool \<Rightarrow> string" where
  "footer ai =
     ''\<newline>---\<newline>*Powered by [EquilateralAgents](https://github.com/marketplace/equilateral-agents)''
       @ (if ai then '' '' @ bullet @ '' AI-Enhanced Analysis Enabled'' else [])
       @ ''*''"

text \<open>
  The annotation of an issue, read off the specification: the file and the title are
  replaced only when they are absent.
\<close>

definition claimedAnnotation :: "issue \<Rightarrow> annotation" where
  "claimedAnnotation issue =
     \<lparr>path = (case file issue of None \<Rightarrow> ''unknown'' | Some f \<Rightarrow> f),
      start_line = (case line issue of None \<Rightarrow> 1 | Some n \<Rightarrow> if n = 0 then 1 else n),
      end_line = (case line issue of None \<Rightarrow> 1 | Some n \<Rightarrow> if n = 0 then 1 else n),
      annotation_level =
        (if severity issue = Some ''critical'' then ''failure'' else ''warning''),
      annotation_message = message issue,
      annotation_title = (case title issue of None \<Rightarrow> ''Issue found'' | Some t \<Rightarrow> t)\<rparr>"

section \<open>The two loops over the tasks\<close>

lemma generateSummary_forEach_present:
  "\<forall>t \<in> set ts. result t \<noteq> None \<Longrightarrow>
     generateSummary_forEach ts s = Inr (s @ concat (map summaryLine ts))"
proof (induction ts arbitrary: s)
  case Nil
  show ?case by simp
next
  case (Cons t ts)
  from Cons.prems obtain r where r: "result t = Some r" by auto
  from Cons.prems have rest: "\<forall>u \<in> set ts. result u \<noteq> None" by simp
  show ?case
    by (cases "result_summary r") (simp_all add: r summaryLine_def Cons.IH [OF rest])
qed

lemma generateSummary_forEach_absent:
  "\<exists>t \<in> set ts. result t = None \<Longrightarrow> generateSummary_forEach ts s = Inl TypeError"
proof (induction ts arbitrary: s)
  case Nil
  then show ?case by simp
next
  case (Cons t ts)
  show ?case
  proof (cases "result t")
    case None
    then show ?thesis by simp
  next
    case (Some r)
    with Cons.prems have "\<exists>u \<in> set ts. result u = None" by auto
    then show ?thesis
      by (cases "result_summary r") (simp_all add: Some Cons.IH)
  qed
qed

lemma extractIssues_forEach_present:
  "\<forall>t \<in> set ts. result t \<noteq> None \<Longrightarrow>
     extractIssues_forEach ts acc = Inr (acc @ concat (map contributed ts))"
proof (induction ts arbitrary: acc)
  case Nil
  show ?case by simp
next
  case (Cons t ts)
  from Cons.prems obtain r where r: "result t = Some r" by auto
  from Cons.prems have rest: "\<forall>u \<in> set ts. result u \<noteq> None" by simp
  show ?case
    by (cases "result_issues r") (simp_all add: r contributed_def Cons.IH [OF rest])
qed

lemma extractIssues_forEach_absent:
  "\<exists>t \<in> set ts. result t = None \<Longrightarrow> extractIssues_forEach ts acc = Inl TypeError"
proof (induction ts arbitrary: acc)
  case Nil
  then show ?case by simp
next
  case (Cons t ts)
  show ?case
  proof (cases "result t")
    case None
    then show ?thesis by simp
  next
    case (Some r)
    with Cons.prems have "\<exists>u \<in> set ts. result u = None" by auto
    then show ?thesis
      by (cases "result_issues r") (simp_all add: Some Cons.IH)
  qed
qed

lemma generateSummary_tasksOf:
  "generateSummary res =
     generateSummary_forEach (tasksOf res)
       (''Analyzed '' @ showNat (length (tasksOf res)) @ '' workflow tasks\<newline>'')"
  by (simp add: generateSummary_def tasksOf_def Let_def)

lemma extractIssues_tasksOf: "extractIssues res = extractIssues_forEach (tasksOf res) []"
  by (simp add: extractIssues_def tasksOf_def Let_def)

section \<open>The summary text\<close>

text \<open>
  C5, as the code has it. Whenever every task has a result object, the summary is the
  header \<open>Analyzed N workflow tasks\<close> with \<open>N\<close> the number of all tasks, a line break,
  and then, in task order, a line break and \<open>agentId: summary\<close> for each task whose
  summary is present and not empty. A task whose summary is missing or empty adds
  nothing, and the \<open>issues\<close> property plays no part. With a task that has no result
  object there is no summary: the function throws.
\<close>

theorem generateSummary_lines:
  "generateSummary res =
     (if \<forall>t \<in> set (tasksOf res). result t \<noteq> None
      then Inr (''Analyzed '' @ showNat (length (tasksOf res)) @ '' workflow tasks\<newline>''
                  @ concat (map summaryLine (tasksOf res)))
      else Inl TypeError)"
  by (simp add: generateSummary_tasksOf generateSummary_forEach_present
      generateSummary_forEach_absent)

theorem generateSummary_lines_witness:
  "generateSummary \<lparr>results = Some
      [\<lparr>agentId = ''A'', result = Some \<lparr>result_summary = Some ''2 findings'',
          result_issues = Some [issue1, issue2]\<rparr>\<rparr>,
       \<lparr>agentId = ''B'', result = Some \<lparr>result_summary = None, result_issues = None\<rparr>\<rparr>,
       \<lparr>agentId = ''C'', result = Some \<lparr>result_summary = Some '''', result_issues = None\<rparr>\<rparr>,
       \<lparr>agentId = ''D'', result = Some \<lparr>result_summary = Some ''ok'',
          result_issues = None\<rparr>\<rparr>]\<rparr>
   = Inr ''Analyzed 4 workflow tasks\<newline>\<newline>A: 2 findings\<newline>D: ok''"
  using generateSummary_lines [of "\<lparr>results = Some
      [\<lparr>agentId = ''A'', result = Some \<lparr>result_summary = Some ''2 findings'',
          result_issues = Some [issue1, issue2]\<rparr>\<rparr>,
       \<lparr>agentId = ''B'', result = Some \<lparr>result_summary = None, result_issues = None\<rparr>\<rparr>,
       \<lparr>agentId = ''C'', result = Some \<lparr>result_summary = Some '''', result_issues = None\<rparr>\<rparr>,
       \<lparr>agentId = ''D'', result = Some \<lparr>result_summary = Some ''ok'',
          result_issues = None\<rparr>\<rparr>]\<rparr>"]
  by (simp add: tasksOf_def summaryLine_def showNat.simps digitChar_def)

text \<open>
  C5, as the specification words it, fails for a task that carries the empty string as
  its summary: the specification gives it the line \<open>A: \<close>, the code gives it nothing.
\<close>

theorem generateSummary_empty_summary_counterexample:
  "generateSummary \<lparr>results = Some
      [\<lparr>agentId = ''A'', result = Some \<lparr>result_summary = Some '''',
          result_issues = None\<rparr>\<rparr>]\<rparr>
   \<noteq> Inr (''Analyzed 1 workflow tasks\<newline>'' @ concat (map claimedSummaryLine
      [\<lparr>agentId = ''A'', result = Some \<lparr>result_summary = Some '''',
          result_issues = None\<rparr>\<rparr>]))"
  by (simp add: generateSummary_def claimedSummaryLine_def showNat.simps digitChar_def)

section \<open>The issue list\<close>

text \<open>
  C6, as the code has it. Whenever every task has a result object, the issues that
  \<open>extractIssues\<close> returns are the issue lists of the tasks, concatenated in task
  order; nothing is sorted, dropped or repeated. With a task that has no result object
  there is no issue list: the function throws.
\<close>

theorem extractIssues_concat:
  "extractIssues res =
     (if \<forall>t \<in> set (tasksOf res). result t \<noteq> None
      then Inr (concat (map contributed (tasksOf res)))
      else Inl TypeError)"
  by (simp add: extractIssues_tasksOf extractIssues_forEach_present
      extractIssues_forEach_absent)

theorem extractIssues_concat_witness:
  "extractIssues \<lparr>results = Some
      [\<lparr>agentId = ''A'', result = Some \<lparr>result_summary = None,
          result_issues = Some [issue1, issue2]\<rparr>\<rparr>,
       \<lparr>agentId = ''B'', result = Some \<lparr>result_summary = None,
          result_issues = Some [issue3]\<rparr>\<rparr>]\<rparr>
   = Inr [issue1, issue2, issue3]"
  using extractIssues_concat [of "\<lparr>results = Some
      [\<lparr>agentId = ''A'', result = Some \<lparr>result_summary = None,
          result_issues = Some [issue1, issue2]\<rparr>\<rparr>,
       \<lparr>agentId = ''B'', result = Some \<lparr>result_summary = None,
          result_issues = Some [issue3]\<rparr>\<rparr>]\<rparr>"]
  by (simp add: tasksOf_def contributed_def)

text \<open>
  C6, as the specification words it, fails for a sequence with a task that carries no
  result object: the issue lists of the two tasks concatenate to the one issue of the
  second task, and the code returns no list at all.
\<close>

theorem extractIssues_without_result_counterexample:
  "concat (map contributed [taskNoResult, taskB]) = [issue3] \<and>
   extractIssues \<lparr>results = Some [taskNoResult, taskB]\<rparr> = Inl TypeError \<and>
   extractIssues \<lparr>results = Some [taskNoResult, taskB]\<rparr>
     \<noteq> Inr (concat (map contributed [taskNoResult, taskB]))"
  by (simp add: extractIssues_def contributed_def taskNoResult_def taskB_def)

section \<open>A workflow result without a task list\<close>



section \<open>A task without output\<close>

lemma summaryLine_silent:
  "result t = Some r \<Longrightarrow> result_summary r = None \<Longrightarrow> summaryLine t = []"
  by (simp add: summaryLine_def)

lemma contributed_silent:
  "result t = Some r \<Longrightarrow> result_issues r = None \<Longrightarrow> contributed t = []"
  by (simp add: contributed_def)

lemma run_throws: "generateSummary res = Inl e \<Longrightarrow> run inp res text = Inl e"
  by (simp add: run_def)

lemma run_returns:
  "generateSummary res = Inr s \<Longrightarrow> extractIssues res = Inr found \<Longrightarrow>
     \<not> isl (run inp res text)"
  by (simp add: run_def Let_def)

text \<open>
  C9, as the code has it. A task whose result object is there but holds neither a summary
  nor issues does not stop the run: among tasks that all have result objects it adds no
  issue and no summary line, the header still counts it, and the summary and the issues
  of the other tasks are produced. A task with no result object at all makes both
  functions throw, and the run ends in its \<open>catch\<close> block without any report.
\<close>

theorem task_without_output:
  "(result t = Some r \<and> result_summary r = None \<and> result_issues r = None \<and>
      (\<forall>u \<in> set (before @ after). result u \<noteq> None) \<longrightarrow>
        generateSummary \<lparr>results = Some (before @ t # after)\<rparr> =
          Inr (''Analyzed '' @ showNat (Suc (length before + length after))
                 @ '' workflow tasks\<newline>'' @ concat (map summaryLine (before @ after))) \<and>
        extractIssues \<lparr>results = Some (before @ t # after)\<rparr> =
          Inr (concat (map contributed (before @ after))) \<and>
        \<not> isl (run inp \<lparr>results = Some (before @ t # after)\<rparr> text)) \<and>
   (result t = None \<longrightarrow>
        generateSummary \<lparr>results = Some (before @ t # after)\<rparr> = Inl TypeError \<and>
        extractIssues \<lparr>results = Some (before @ t # after)\<rparr> = Inl TypeError \<and>
        run inp \<lparr>results = Some (before @ t # after)\<rparr> text = Inl TypeError)"
proof (intro conjI impI)
  let ?res = "\<lparr>results = Some (before @ t # after)\<rparr>"
  have tasks: "tasksOf ?res = before @ t # after"
    by (simp add: tasksOf_def)
  {
    assume a: "result t = Some r \<and> result_summary r = None \<and> result_issues r = None \<and>
      (\<forall>u \<in> set (before @ after). result u \<noteq> None)"
    then have all: "\<forall>u \<in> set (before @ t # after). result u \<noteq> None" by auto
    from a have s: "summaryLine t = []" by (simp add: summaryLine_silent)
    from a have c: "contributed t = []" by (simp add: contributed_silent)
    show gs: "generateSummary ?res =
        Inr (''Analyzed '' @ showNat (Suc (length before + length after))
               @ '' workflow tasks\<newline>'' @ concat (map summaryLine (before @ after)))"
      by (simp add: generateSummary_tasksOf tasks generateSummary_forEach_present [OF all] s)
    show ei: "extractIssues ?res = Inr (concat (map contributed (before @ after)))"
      by (simp add: extractIssues_tasksOf tasks extractIssues_forEach_present [OF all] c)
    show "\<not> isl (run inp ?res text)"
      by (rule run_returns [OF gs ei])
  }
  {
    assume "result t = None"
    then have ex: "\<exists>u \<in> set (before @ t # after). result u = None" by auto
    show gs: "generateSummary ?res = Inl TypeError"
      by (simp add: generateSummary_tasksOf tasks generateSummary_forEach_absent [OF ex])
    show "extractIssues ?res = Inl TypeError"
      by (simp add: extractIssues_tasksOf tasks extractIssues_forEach_absent [OF ex])
    show "run inp ?res text = Inl TypeError"
      by (rule run_throws [OF gs])
  }
qed

theorem task_without_output_witness:
  "generateSummary \<lparr>results = Some [taskA, taskSilent, taskB]\<rparr> =
     Inr ''Analyzed 3 workflow tasks\<newline>\<newline>A: 2 findings\<newline>B: ok'' \<and>
   extractIssues \<lparr>results = Some [taskA, taskSilent, taskB]\<rparr> =
     Inr [issue1, issue2, issue3] \<and>
   \<not> isl (run sampleInputs \<lparr>results = Some [taskA, taskSilent, taskB]\<rparr> ''{}'') \<and>
   generateSummary \<lparr>results = Some [taskA, taskNoResult, taskB]\<rparr> = Inl TypeError \<and>
   extractIssues \<lparr>results = Some [taskA, taskNoResult, taskB]\<rparr> = Inl TypeError \<and>
   run sampleInputs \<lparr>results = Some [taskA, taskNoResult, taskB]\<rparr> ''{}'' = Inl TypeError"
  using task_without_output [of taskSilent "\<lparr>result_summary = None, result_issues = None\<rparr>"
      "[taskA]" "[taskB]" sampleInputs "''{}''"]
    task_without_output [of taskNoResult "\<lparr>result_summary = None, result_issues = None\<rparr>"
      "[taskA]" "[taskB]" sampleInputs "''{}''"]
  by (simp add: taskA_def taskB_def taskSilent_def taskNoResult_def summaryLine_def
      contributed_def showNat.simps digitChar_def)

text \<open>
  C9, as the specification words it, fails for a failed task that carries no result
  object: nothing is aggregated for the task after it, both functions throw, and the
  run reports only that the action failed.
\<close>

theorem task_without_result_counterexample:
  "generateSummary \<lparr>results = Some [taskNoResult, taskB]\<rparr> = Inl TypeError \<and>
   extractIssues \<lparr>results = Some [taskNoResult, taskB]\<rparr> = Inl TypeError \<and>
   run sampleInputs \<lparr>results = Some [taskNoResult, taskB]\<rparr> ''{}'' = Inl TypeError"
  by (simp add: generateSummary_def extractIssues_def run_def taskNoResult_def taskB_def)

section \<open>The check run\<close>

text \<open>
  C3: the conclusion of the check run is \<open>failure\<close> exactly when there is a critical
  issue and \<open>success\<close> otherwise; the title is \<open>Found n critical issues\<close> for
  \<open>n > 0\<close> critical issues and \<open>All checks passed\<close> for none. Two issue lists with the
  same number of critical issues get the same conclusion and title, whatever their
  warnings and infos, summaries and detail texts are.
\<close>

theorem checkRun_conclusion_title:
  "(conclusion (createCheckRunReport summary issues text) = ''failure'' \<longleftrightarrow>
      0 < criticalCount issues) \<and>
   (conclusion (createCheckRunReport summary issues text) = ''success'' \<longleftrightarrow>
      criticalCount issues = 0) \<and>
   output_title (createCheckRunReport summary issues text) =
     (if 0 < criticalCount issues
      then ''Found '' @ showNat (criticalCount issues) @ '' critical issues''
      else ''All checks passed'') \<and>
   (\<forall>summary' issues' text'. criticalCount issues' = criticalCount issues \<longrightarrow>
      conclusion (createCheckRunReport summary' issues' text') =
        conclusion (createCheckRunReport summary issues text) \<and>
      output_title (createCheckRunReport summary' issues' text') =
        output_title (createCheckRunReport summary issues text))"
  by (simp add: createCheckRunReport_def criticalCount_def withSeverity_def Let_def)

theorem checkRun_conclusion_title_witness:
  "conclusion (createCheckRunReport ''S'' [issue1] ''{}'') = ''failure'' \<and>
   output_title (createCheckRunReport ''S'' [issue1] ''{}'') = ''Found 1 critical issues'' \<and>
   conclusion (createCheckRunReport ''T'' [issue2, issue1, issue3, issue3] ''[]'') =
     ''failure'' \<and>
   output_title (createCheckRunReport ''T'' [issue2, issue1, issue3, issue3] ''[]'') =
     ''Found 1 critical issues'' \<and>
   conclusion (createCheckRunReport ''S'' [issue2, issue3] ''{}'') = ''success'' \<and>
   output_title (createCheckRunReport ''S'' [issue2, issue3] ''{}'') = ''All checks passed''"
proof -
  have one: "criticalCount [issue1] = 1"
    by (simp add: criticalCount_def withSeverity_def issue1_def)
  have same: "criticalCount [issue2, issue1, issue3, issue3] = criticalCount [issue1]"
    by (simp add: criticalCount_def withSeverity_def issue1_def issue2_def issue3_def)
  have none: "criticalCount [issue2, issue3] = 0"
    by (simp add: criticalCount_def withSeverity_def issue2_def issue3_def)
  have digit: "showNat 1 = ''1''"
    by (simp add: showNat.simps digitChar_def)
  from checkRun_conclusion_title [of "''S''" "[issue1]" "''{}''"] one digit
  have first: "conclusion (createCheckRunReport ''S'' [issue1] ''{}'') = ''failure'' \<and>
      output_title (createCheckRunReport ''S'' [issue1] ''{}'') = ''Found 1 critical issues''"
    by simp
  from checkRun_conclusion_title [of "''S''" "[issue1]" "''{}''"] same
  have "conclusion (createCheckRunReport ''T'' [issue2, issue1, issue3, issue3] ''[]'') =
        conclusion (createCheckRunReport ''S'' [issue1] ''{}'') \<and>
      output_title (createCheckRunReport ''T'' [issue2, issue1, issue3, issue3] ''[]'') =
        output_title (createCheckRunReport ''S'' [issue1] ''{}'')"
    by blast
  with first have second:
    "conclusion (createCheckRunReport ''T'' [issue2, issue1, issue3, issue3] ''[]'') =
        ''failure'' \<and>
      output_title (createCheckRunReport ''T'' [issue2, issue1, issue3, issue3] ''[]'') =
        ''Found 1 critical issues''"
    by simp
  from checkRun_conclusion_title [of "''S''" "[issue2, issue3]" "''{}''"] none
  have third: "conclusion (createCheckRunReport ''S'' [issue2, issue3] ''{}'') = ''success'' \<and>
      output_title (createCheckRunReport ''S'' [issue2, issue3] ''{}'') = ''All checks passed''"
    by simp
  from first second third show ?thesis by simp
qed

section \<open>The pull-request comment\<close>

lemma foldl_append_concat:
  "foldl (\<lambda>body x. body @ f x) body xs = body @ concat (map f xs)"
  by (induction xs arbitrary: body) simp_all

lemma issueLine_listed: "issueLine = listedLine"
  by (rule ext)
    (simp add: issueLine_def listedLine_def template_def lineOrQuestion_def
      split: option.split)

lemma comment_body_sections:
  "createPullRequestComment_body summary issues ai =
     ''## '' @ robot_face @ '' EquilateralAgents Analysis\<newline>\<newline>### Summary\<newline>''
       @ summary @ ''\<newline>''
       @ (if issues = [] then ''\<newline>'' @ check_mark @ '' No issues found!\<newline>''
          else ''\<newline>### Issues Found ('' @ showNat (length issues) @ '')\<newline>\<newline>''
                 @ severitySection (red_circle @ '' Critical'') (withSeverity ''critical'' issues)
                 @ severitySection (yellow_circle @ '' Warnings'') (withSeverity ''warning'' issues)
                 @ severitySection (info_sign @ '' Info'') (withSeverity ''info'' issues))
       @ footer ai"
  by (simp add: createPullRequestComment_body_def Let_def foldl_append_concat
      issueLine_listed severitySection_def withSeverity_def footer_def)

lemma footer_ai:
  "footer True =
     ''\<newline>---\<newline>*Powered by [EquilateralAgents](https://github.com/marketplace/equilateral-agents)''
       @ aiNote @ ''*''"
  by (simp add: footer_def aiNote_def)

lemma footer_note: "sublist aiNote (footer ai) \<longleftrightarrow> ai"
proof (cases ai)
  case True
  have "sublist aiNote (footer True)"
    unfolding footer_ai by (rule sublist_appendI)
  with True show ?thesis by simp
next
  case False
  have "\<not> sublist aiNote (footer False)"
    by code_simp
  with False show ?thesis by simp
qed

text \<open>
  C7 does not hold of the code. The frame of the document is as the claim has it (the
  lemmas above: heading, summary, the line \<open>No issues found!\<close> or the subsections in
  the order critical, warnings, info, and the attribution with the note on AI exactly
  when AI is enabled). But a subsection lists only the issues that its filter selects,
  and a line prints the file as it is. Here the list has two issues. The one with the
  severity \<open>error\<close> is counted in \<open>Issues Found (2)\<close> and listed in no subsection,
  and the warning without a file is listed under the file name \<open>undefined\<close>, while its
  annotation gets the path \<open>unknown\<close>.
\<close>

theorem comment_misses_issue_and_file:
  "createPullRequestComment_body ''S'' [issueOdd, issueNoPath] False =
     ''## '' @ robot_face @ '' EquilateralAgents Analysis\<newline>\<newline>### Summary\<newline>S\<newline>\<newline>### Issues Found (2)\<newline>\<newline>#### ''
       @ yellow_circle @ '' Warnings (1)\<newline>- **undefined:?** - unused var\<newline>\<newline>\<newline>---\<newline>*Powered by [EquilateralAgents](https://github.com/marketplace/equilateral-agents)*'' \<and>
   path (annotationOf issueNoPath) = ''unknown''"
  by (simp add: createPullRequestComment_body_def issueOdd_def issueNoPath_def issueLine_def
      template_def lineOrQuestion_def annotationOf_def stringOr_def showNat.simps
      digitChar_def)

section \<open>Critical issues in the three channels\<close>

lemma severitySection_line:
  assumes "i \<in> set items"
  shows "sublist (listedLine i) (severitySection label items)"
proof -
  from assms obtain xs ys where items: "items = xs @ i # ys"
    by (auto dest: split_list)
  then have "severitySection label items =
      (''#### '' @ label @ '' ('' @ showNat (length items) @ '')\<newline>''
         @ concat (map listedLine xs))
      @ listedLine i @ (concat (map listedLine ys) @ ''\<newline>'')"
    by (simp add: severitySection_def)
  then show ?thesis
    by (metis sublist_appendI)
qed

lemma critical_section_in_body:
  assumes "issues \<noteq> []"
  shows "sublist (severitySection (red_circle @ '' Critical'') (withSeverity ''critical'' issues))
     (createPullRequestComment_body summary issues ai)"
proof -
  have "createPullRequestComment_body summary issues ai =
      (''## '' @ robot_face @ '' EquilateralAgents Analysis\<newline>\<newline>### Summary\<newline>''
         @ summary @ ''\<newline>''
         @ ''\<newline>### Issues Found ('' @ showNat (length issues) @ '')\<newline>\<newline>'')
      @ severitySection (red_circle @ '' Critical'') (withSeverity ''critical'' issues)
      @ (severitySection (yellow_circle @ '' Warnings'') (withSeverity ''warning'' issues)
         @ severitySection (info_sign @ '' Info'') (withSeverity ''info'' issues)
         @ footer ai)"
    using assms by (simp add: comment_body_sections)
  then show ?thesis
    by (metis sublist_appendI)
qed

text \<open>
  C2: every critical issue of the issue list shows in all three channels. The check run
  concludes \<open>failure\<close>. The issue is in the critical group, and the critical subsection
  of the comment (its heading \<open>Critical (n)\<close>, one line per critical issue, an empty
  line) is part of the comment and holds the line of the issue: a dash, in bold its file,
  a colon and its line number (\<open>?\<close> for none), a dash and its message. The annotation
  loop reports the issue through \<open>core.error\<close> with an annotation of level \<open>failure\<close>.
\<close>

theorem critical_issue_in_every_channel:
  assumes "i \<in> set issues" and "severity i = Some ''critical''"
  shows "conclusion (createCheckRunReport summary issues text) = ''failure'' \<and>
     i \<in> set (withSeverity ''critical'' issues) \<and>
     sublist
       (''- **'' @ (case file i of None \<Rightarrow> ''undefined'' | Some f \<Rightarrow> f) @ '':''
          @ (case line i of None \<Rightarrow> ''?'' | Some n \<Rightarrow> if n = 0 then ''?'' else showNat n)
          @ ''** - '' @ (case message i of None \<Rightarrow> ''undefined'' | Some m \<Rightarrow> m)
          @ ''\<newline>'')
       (''#### '' @ red_circle @ '' Critical (''
          @ showNat (length (withSeverity ''critical'' issues)) @ '')\<newline>''
          @ concat (map listedLine (withSeverity ''critical'' issues)) @ ''\<newline>'') \<and>
     sublist
       (''#### '' @ red_circle @ '' Critical (''
          @ showNat (length (withSeverity ''critical'' issues)) @ '')\<newline>''
          @ concat (map listedLine (withSeverity ''critical'' issues)) @ ''\<newline>'')
       (createPullRequestComment_body summary issues ai) \<and>
     Error (message i) (annotationOf i) \<in> set (annotations issues) \<and>
     annotation_level (annotationOf i) = ''failure''"
proof -
  let ?crit = "severitySection (red_circle @ '' Critical'') (withSeverity ''critical'' issues)"
  from assms have member: "i \<in> set (withSeverity ''critical'' issues)"
    by (simp add: withSeverity_def)
  then have nonempty: "withSeverity ''critical'' issues \<noteq> []" by auto
  then have "0 < length (filter (\<lambda>i. severity i = Some ''critical'') issues)"
    by (simp add: withSeverity_def)
  then have c: "conclusion (createCheckRunReport summary issues text) = ''failure''"
    by (simp add: createCheckRunReport_def Let_def)
  from nonempty have crit_text:
    "?crit = ''#### '' @ red_circle @ '' Critical (''
       @ showNat (length (withSeverity ''critical'' issues)) @ '')\<newline>''
       @ concat (map listedLine (withSeverity ''critical'' issues)) @ ''\<newline>''"
    by (simp add: severitySection_def)
  have "sublist (listedLine i) ?crit"
    using member by (rule severitySection_line)
  then have line:
    "sublist
       (''- **'' @ (case file i of None \<Rightarrow> ''undefined'' | Some f \<Rightarrow> f) @ '':''
          @ (case line i of None \<Rightarrow> ''?'' | Some n \<Rightarrow> if n = 0 then ''?'' else showNat n)
          @ ''** - '' @ (case message i of None \<Rightarrow> ''undefined'' | Some m \<Rightarrow> m)
          @ ''\<newline>'')
       ?crit"
    by (simp add: listedLine_def)
  from assms(1) have "issues \<noteq> []" by auto
  then have s: "sublist ?crit (createPullRequestComment_body summary issues ai)"
    by (rule critical_section_in_body)
  from assms(2) have "annotate i = Error (message i) (annotationOf i)"
    by (simp add: annotate_def)
  with assms(1) have a: "Error (message i) (annotationOf i) \<in> set (annotations issues)"
    by (force simp: annotations_def)
  from assms(2) have l: "annotation_level (annotationOf i) = ''failure''"
    by (simp add: annotationOf_def)
  from line s show ?thesis
    unfolding crit_text using c member a l by simp
qed

theorem critical_issue_in_every_channel_witness:
  "issue1 \<in> set [issue2, issue1, issue3, issue4] \<and> severity issue1 = Some ''critical'' \<and>
   issue4 \<in> set [issue2, issue1, issue3, issue4] \<and> severity issue4 = Some ''critical'' \<and>
   conclusion (createCheckRunReport ''S'' [issue2, issue1, issue3, issue4] ''{}'') =
     ''failure'' \<and>
   sublist ''- **a.js:10** - SQL injection\<newline>''
     (''#### '' @ red_circle
        @ '' Critical (2)\<newline>- **a.js:10** - SQL injection\<newline>- **d.js:?** - leak\<newline>\<newline>'') \<and>
   sublist ''- **d.js:?** - leak\<newline>''
     (''#### '' @ red_circle
        @ '' Critical (2)\<newline>- **a.js:10** - SQL injection\<newline>- **d.js:?** - leak\<newline>\<newline>'') \<and>
   sublist
     (''#### '' @ red_circle
        @ '' Critical (2)\<newline>- **a.js:10** - SQL injection\<newline>- **d.js:?** - leak\<newline>\<newline>'')
     (createPullRequestComment_body ''S'' [issue2, issue1, issue3, issue4] True) \<and>
   Error (Some ''SQL injection'')
     \<lparr>path = ''a.js'', start_line = 10, end_line = 10, annotation_level = ''failure'',
      annotation_message = Some ''SQL injection'', annotation_title = ''Issue found''\<rparr>
     \<in> set (annotations [issue2, issue1, issue3, issue4]) \<and>
   Error (Some ''leak'')
     \<lparr>path = ''d.js'', start_line = 1, end_line = 1, annotation_level = ''failure'',
      annotation_message = Some ''leak'', annotation_title = ''Issue found''\<rparr>
     \<in> set (annotations [issue2, issue1, issue3, issue4])"
proof -
  let ?issues = "[issue2, issue1, issue3, issue4]"
  have m1: "issue1 \<in> set ?issues" and m4: "issue4 \<in> set ?issues" by simp_all
  have s1: "severity issue1 = Some ''critical''" by (simp add: issue1_def)
  have s4: "severity issue4 = Some ''critical''" by (simp add: issue4_def)
  have crit: "withSeverity ''critical'' ?issues = [issue1, issue4]"
    by (simp add: withSeverity_def issue1_def issue2_def issue3_def issue4_def)
  have l1: "listedLine issue1 = ''- **a.js:10** - SQL injection\<newline>''"
    by (simp add: issue1_def listedLine_def showNat.simps digitChar_def)
  have l4: "listedLine issue4 = ''- **d.js:?** - leak\<newline>''"
    by (simp add: issue4_def listedLine_def)
  have two: "showNat (Suc (Suc 0)) = ''2''" by (simp add: showNat.simps digitChar_def)
  have a1: "annotationOf issue1 =
      \<lparr>path = ''a.js'', start_line = 10, end_line = 10, annotation_level = ''failure'',
       annotation_message = Some ''SQL injection'', annotation_title = ''Issue found''\<rparr>"
    by (simp add: issue1_def annotationOf_def stringOr_def numberOr_def)
  have a4: "annotationOf issue4 =
      \<lparr>path = ''d.js'', start_line = 1, end_line = 1, annotation_level = ''failure'',
       annotation_message = Some ''leak'', annotation_title = ''Issue found''\<rparr>"
    by (simp add: issue4_def annotationOf_def stringOr_def numberOr_def)
  have f1: "file issue1 = Some ''a.js''" "line issue1 = Some 10"
    "message issue1 = Some ''SQL injection''"
    by (simp_all add: issue1_def)
  have f4: "file issue4 = Some ''d.js''" "line issue4 = None" "message issue4 = Some ''leak''"
    by (simp_all add: issue4_def)
  have ten: "showNat 10 = ''10''" by (simp add: showNat.simps digitChar_def)
  from critical_issue_in_every_channel [OF m1 s1, of "''S''" "''{}''" True]
    critical_issue_in_every_channel [OF m4 s4, of "''S''" "''{}''" True]
    m1 m4 s1 s4 crit l1 l4 two a1 a4 f1 f4 ten
  show ?thesis by simp
qed

section \<open>Annotations\<close>

text \<open>
  C8, as the code has it. The annotation loop makes exactly one call per issue, in list
  order, and equal issues or issues on the same line are neither merged nor dropped.
  The path is the file of the issue, or \<open>unknown\<close> when the file is absent or empty;
  both line numbers are the line of the issue, or 1 when it is absent or zero; the level
  is \<open>failure\<close> for a critical issue and \<open>warning\<close> for any other; the title is that
  of the issue, or \<open>Issue found\<close> when it is absent or empty.
\<close>

theorem annotations_one_per_issue:
  "length (annotations issues) = length issues \<and>
   (\<forall>k < length issues.
      annotations issues ! k =
        (if severity (issues ! k) = Some ''critical'' then Error else Warning)
          (message (issues ! k))
          \<lparr>path = (case file (issues ! k) of
                     None \<Rightarrow> ''unknown''
                   | Some f \<Rightarrow> if f = [] then ''unknown'' else f),
           start_line = (case line (issues ! k) of
                     None \<Rightarrow> 1
                   | Some n \<Rightarrow> if n = 0 then 1 else n),
           end_line = (case line (issues ! k) of
                     None \<Rightarrow> 1
                   | Some n \<Rightarrow> if n = 0 then 1 else n),
           annotation_level =
             (if severity (issues ! k) = Some ''critical'' then ''failure'' else ''warning''),
           annotation_message = message (issues ! k),
           annotation_title = (case title (issues ! k) of
                     None \<Rightarrow> ''Issue found''
                   | Some t \<Rightarrow> if t = [] then ''Issue found'' else t)\<rparr>)"
  by (simp add: annotations_def annotate_def annotationOf_def stringOr_def numberOr_def Let_def
      split: option.split)

theorem annotations_one_per_issue_witness:
  "length (annotations [issue1, issue3, issue3, issueBlank]) = 4 \<and>
   annotations [issue1, issue3, issue3, issueBlank] ! 0 =
     Error (Some ''SQL injection'')
       \<lparr>path = ''a.js'', start_line = 10, end_line = 10, annotation_level = ''failure'',
        annotation_message = Some ''SQL injection'', annotation_title = ''Issue found''\<rparr> \<and>
   annotations [issue1, issue3, issue3, issueBlank] ! 1 =
     Warning (Some ''note'')
       \<lparr>path = ''c.js'', start_line = 1, end_line = 1, annotation_level = ''warning'',
        annotation_message = Some ''note'', annotation_title = ''Style''\<rparr> \<and>
   annotations [issue1, issue3, issue3, issueBlank] ! 2 =
     annotations [issue1, issue3, issue3, issueBlank] ! 1 \<and>
   annotations [issue1, issue3, issue3, issueBlank] ! 3 =
     Warning (Some ''unused var'')
       \<lparr>path = ''unknown'', start_line = 3, end_line = 3, annotation_level = ''warning'',
        annotation_message = Some ''unused var'', annotation_title = ''Issue found''\<rparr>"
  using annotations_one_per_issue [of "[issue1, issue3, issue3, issueBlank]"]
  by (simp add: issue1_def issue3_def issueBlank_def nth_Cons' All_less_Suc
      eval_nat_numeral)

text \<open>
  C8, as the specification words it, fails for an issue whose file and title are empty
  strings: the specification keeps them, the code replaces them by the defaults.
\<close>

theorem annotation_empty_file_counterexample:
  "path (annotationOf issueBlank) = ''unknown'' \<and>
   path (claimedAnnotation issueBlank) = '''' \<and>
   annotation_title (annotationOf issueBlank) = ''Issue found'' \<and>
   annotation_title (claimedAnnotation issueBlank) = '''' \<and>
   annotationOf issueBlank \<noteq> claimedAnnotation issueBlank"
  by (simp add: annotationOf_def claimedAnnotation_def issueBlank_def stringOr_def)

section \<open>The three severity groups\<close>

lemma severity_groups_bound:
  "length (withSeverity ''critical'' issues) + length (withSeverity ''warning'' issues)
     + length (withSeverity ''info'' issues) \<le> length issues"
  by (induction issues) (simp_all add: withSeverity_def)

lemma severity_groups_recognized:
  "\<forall>i \<in> set issues. severity i \<in> {Some ''critical'', Some ''warning'', Some ''info''} \<Longrightarrow>
     length (withSeverity ''critical'' issues) + length (withSeverity ''warning'' issues)
       + length (withSeverity ''info'' issues) = length issues"
  by (induction issues) (auto simp: withSeverity_def)

text \<open>
  C1 does not hold of the code. An issue whose severity is none of \<open>critical\<close>,
  \<open>warning\<close>, \<open>info\<close> is selected by none of the three filters of the comment: here the
  list has one issue, the three groups are empty, and the comment announces one issue
  and lists none. The annotation loop does keep the issue, as a warning.
\<close>

theorem unrecognized_severity_not_listed:
  "length [issueOdd] = 1 \<and>
   length (filter (\<lambda>i. severity i = Some ''critical'') [issueOdd])
     + length (filter (\<lambda>i. severity i = Some ''warning'') [issueOdd])
     + length (filter (\<lambda>i. severity i = Some ''info'') [issueOdd]) = 0 \<and>
   createPullRequestComment_body ''S'' [issueOdd] False =
     ''## '' @ robot_face @ '' EquilateralAgents Analysis\<newline>\<newline>### Summary\<newline>S\<newline>\<newline>### Issues Found (1)\<newline>\<newline>\<newline>---\<newline>*Powered by [EquilateralAgents](https://github.com/marketplace/equilateral-agents)*'' \<and>
   annotations [issueOdd] =
     [Warning (Some ''SQL injection'')
       \<lparr>path = ''a.js'', start_line = 10, end_line = 10, annotation_level = ''warning'',
        annotation_message = Some ''SQL injection'', annotation_title = ''Issue found''\<rparr>]"
  by (simp add: createPullRequestComment_body_def issueOdd_def annotations_def annotate_def
      annotationOf_def stringOr_def numberOr_def showNat.simps digitChar_def)

section \<open>The workflow registry\<close>

lemma getWorkflowDefinition_builtin:
  "getWorkflowDefinition ''code-review'' = Definition \<lparr>tasks =
     [\<lparr>descriptor_agentId = ''github-code-analyzer'', taskType = ''analyze''\<rparr>,
      \<lparr>descriptor_agentId = ''github-security-scanner'', taskType = ''scan''\<rparr>]\<rparr>"
  "getWorkflowDefinition ''full-analysis'' = Definition \<lparr>tasks =
     [\<lparr>descriptor_agentId = ''github-code-analyzer'', taskType = ''analyze''\<rparr>,
      \<lparr>descriptor_agentId = ''github-security-scanner'', taskType = ''scan''\<rparr>,
      \<lparr>descriptor_agentId = ''github-test-runner'', taskType = ''test''\<rparr>]\<rparr>"
  "getWorkflowDefinition ''pre-deploy'' = Definition \<lparr>tasks =
     [\<lparr>descriptor_agentId = ''github-test-runner'', taskType = ''test''\<rparr>,
      \<lparr>descriptor_agentId = ''github-security-scanner'', taskType = ''scan''\<rparr>,
      \<lparr>descriptor_agentId = ''github-deployment-validator'', taskType = ''validate''\<rparr>]\<rparr>"
  "getWorkflowDefinition ''security-scan'' = Definition \<lparr>tasks =
     [\<lparr>descriptor_agentId = ''github-security-scanner'', taskType = ''security_scan''\<rparr>]\<rparr>"
  by (simp_all add: getWorkflowDefinition_def workflows_def)

lemma getWorkflowDefinition_unknown:
  assumes "workflowType \<notin> {''code-review'', ''full-analysis'', ''pre-deploy'', ''security-scan''}"
    and "workflowType \<notin> set objectPrototypeNames"
  shows "getWorkflowDefinition workflowType = Definition \<lparr>tasks = []\<rparr>"
  using assms by (simp add: getWorkflowDefinition_def workflows_def)

text \<open>
  C4 does not hold of the code for every key. The four built-in keys resolve as listed
  and a key that no object has resolves to the empty definition (the two lemmas above),
  but the key \<open>constructor\<close> resolves to the member that the table inherits from
  \<open>Object.prototype\<close>, which is not a workflow definition and has no task list.
\<close>

theorem getWorkflowDefinition_inherited_key:
  "getWorkflowDefinition ''constructor'' = PrototypeMember ''constructor'' \<and>
   getWorkflowDefinition ''constructor'' \<noteq> Definition \<lparr>tasks = []\<rparr>"
  by (simp add: getWorkflowDefinition_def workflows_def objectPrototypeNames_def)

end
